theory Spec2Isabelle
  imports Main "HOL-Library.Word"
begin

section \<open>cmyk2srgbjpeg: the driver of \<open>src/tools/cmyk2srgbjpeg.c\<close>\<close>

text \<open>
  The program is one function, \<open>main\<close>. Everything it does goes through calls into the
  image library (libvips and GLib), whose code is not part of the file: the library is a
  parameter of the model, a record of the functions \<open>main\<close> calls, each taking the file
  system it reads. The \<open>#define\<close>s of the section USER CONFIGURABLE #DEFINES are a second
  parameter, a record with the values the file delivers as its default.
\<close>

subsection \<open>Data\<close>

text \<open>\<open>size_t\<close>, the type of \<open>strlen\<close>, on a 64-bit platform: unsigned, wrapping.\<close>

type_synonym size_t = "64 word"

type_synonym bytes = "8 word list"

text \<open>The file system: what is stored under each path.\<close>

type_synonym filesystem = "string \<Rightarrow> bytes option"

text \<open>
  An image as the driver sees it: the colour interpretation tag, the embedded ICC
  profile (absent or a blob) and the pixel data.
\<close>

record VipsImage =
  Type :: int
  icc_profile_data :: "bytes option"
  pels :: bytes

text \<open>Line 331: "only do something if the input image is CMYK (type 15)".\<close>

definition VIPS_INTERPRETATION_CMYK :: int where
  "VIPS_INTERPRETATION_CMYK = 15"

datatype VipsIntent =
    IM_INTENT_PERCEPTUAL
  | IM_INTENT_RELATIVE_COLORIMETRIC
  | IM_INTENT_SATURATION
  | IM_INTENT_ABSOLUTE_COLORIMETRIC

text \<open>
  The library. \<open>VIPS_PATH_MAX\<close> is its macro. A C function that returns an \<open>int\<close>
  status keeps it (0 is success); one that returns a pointer, or fills one in, is an
  option (\<open>None\<close> is NULL or failure). \<open>vips_init\<close> takes \<open>argv[0]\<close>, which is NULL
  (\<open>None\<close>) when the argument vector is empty. \<open>g_option_context_parse\<close> returns the
  argument vector it leaves after taking the library's options out, or fails. Only
  \<open>vips_image_write_to_file\<close> changes the file system; it returns the new one together
  with its status, whatever the status is.
\<close>

record vips =
  VIPS_PATH_MAX :: nat
  vips_init :: "string option \<Rightarrow> int"
  g_option_context_parse :: "string list \<Rightarrow> string list option"
  vips_image_new_mode :: "filesystem \<Rightarrow> string \<Rightarrow> string \<Rightarrow> VipsImage option"
  vips_image_get_interpretation :: "VipsImage \<Rightarrow> int"
  vips_icc_transform ::
    "filesystem \<Rightarrow> VipsImage \<Rightarrow> string \<Rightarrow> string \<Rightarrow> VipsIntent \<Rightarrow> bool \<Rightarrow> VipsImage option"
  vips_image_write_to_file :: "filesystem \<Rightarrow> VipsImage \<Rightarrow> string \<Rightarrow> int \<times> filesystem"

text \<open>The user configurable \<open>#define\<close>s, lines 154 to 291.\<close>

record config =
  CMYK2SRGBJPEG_BACKSTOP_CMYK_ICC :: string
  CMYK2SRGBJPEG_SRGB_ICM :: string
  CMYK2SRGBJPEG_PROBABLY_NOT_CMYK :: int
  CMYK2SRGBJPEG_FATAL_ERROR :: int
  CMYK2SRGBJPEG_CMYK_WITH_UNUSABLE_ICC :: int
  CMYK2SRGBJPEG_CMYK_NO_ICC :: int
  CMYK2SRGBJPEG_CMYK_WITH_USABLE_ICC :: int
  CMYK2SRGBJPEG_JPEG_QUALITY :: int
  CMYK2SRGBJPEG_JPEG_EXTENSION :: string
  CMYK2SRGBJPEG_CONVERSION_INTENT :: VipsIntent

text \<open>The values of the file as delivered.\<close>

definition delivered :: config where
  "delivered =
    \<lparr> CMYK2SRGBJPEG_BACKSTOP_CMYK_ICC =
        ''/home/john/vips/share/nip2/data/HP5000_UVDuraImageGlossMaxQ.icc'',
      CMYK2SRGBJPEG_SRGB_ICM = ''/home/john/vips/share/nip2/data/sRGB.icm'',
      CMYK2SRGBJPEG_PROBABLY_NOT_CMYK = 0,
      CMYK2SRGBJPEG_FATAL_ERROR = 1,
      CMYK2SRGBJPEG_CMYK_WITH_UNUSABLE_ICC = 2,
      CMYK2SRGBJPEG_CMYK_NO_ICC = 3,
      CMYK2SRGBJPEG_CMYK_WITH_USABLE_ICC = 4,
      CMYK2SRGBJPEG_JPEG_QUALITY = 99,
      CMYK2SRGBJPEG_JPEG_EXTENSION = ''jpg'',
      CMYK2SRGBJPEG_CONVERSION_INTENT = IM_INTENT_RELATIVE_COLORIMETRIC \<rparr>"

subsection \<open>The process state\<close>

text \<open>
  The objects of the program: \<open>global\<close>, and the five slots \<open>t[0]\<close> .. \<open>t[4]\<close> of the
  array that \<open>vips_object_local_array\<close> hangs on \<open>global\<close>.
\<close>

datatype handle = Global | Local nat

text \<open>The library calls a run makes, in order, with their arguments and how they ended.\<close>

datatype event =
    Ev_vips_image_new
  | Ev_vips_image_new_mode string string bool
  | Ev_vips_icc_transform string string VipsIntent bool bool
  | Ev_vips_image_write_to_file string int
  | Ev_g_object_unref

record world =
  files :: filesystem
  live :: "handle set"
  calls :: "event list"

text \<open>
  How \<open>main\<close> ends: it returns a status, or the library ends the process in
  \<open>vips_error_exit\<close> with a message.
\<close>

datatype outcome = Return int | Vips_error_exit string

subsection \<open>The C library calls on strings\<close>

definition strlen :: "string \<Rightarrow> size_t" where
  "strlen s = of_nat (length s)"

text \<open>\<open>%d\<close>: an \<open>int\<close> in decimal.\<close>

definition digit :: "nat \<Rightarrow> char" where
  "digit d = ''0123456789'' ! d"

function decimal :: "nat \<Rightarrow> string" where
  "decimal n = (if n < 10 then [digit n] else decimal (n div 10) @ [digit (n mod 10)])"
  by pat_completeness auto
termination
  by (relation "measure (\<lambda>n. n)") auto

declare decimal.simps [simp del]

definition fmt_d :: "int \<Rightarrow> string" where
  "fmt_d i = (if i < 0 then CHR ''-'' # decimal (nat (- i)) else decimal (nat i))"

text \<open>
  \<open>vips_snprintf (str, n, format, ...)\<close> stores at most \<open>n - 1\<close> characters of the
  formatted text, and a terminating NUL; \<open>s\<close> is the formatted text.
\<close>

definition vips_snprintf :: "nat \<Rightarrow> string \<Rightarrow> string" where
  "vips_snprintf n s = take (n - 1) s"

subsection \<open>The steps of \<open>main\<close>\<close>

text \<open>Line 321: \<open>global = vips_image_new()\<close>, and the local array (no call recorded).\<close>

definition vips_image_new :: "world \<Rightarrow> world" where
  "vips_image_new w = w\<lparr>live := insert Global (live w), calls := calls w @ [Ev_vips_image_new]\<rparr>"

text \<open>
  \<open>g_object_unref (global)\<close>: the one reference to \<open>global\<close> goes, and with \<open>global\<close> the
  members of its local array. The program has no other object.
\<close>

definition g_object_unref :: "world \<Rightarrow> world" where
  "g_object_unref w = w\<lparr>live := {}, calls := calls w @ [Ev_g_object_unref]\<rparr>"

text \<open>Line 325: \<open>t[0] = vips_image_new_mode (argv[1], "rs")\<close>.\<close>

definition open_input :: "vips \<Rightarrow> string \<Rightarrow> world \<Rightarrow> VipsImage option \<times> world" where
  "open_input lib name w =
    (case vips_image_new_mode lib (files w) name ''rs'' of
       None \<Rightarrow> (None, w\<lparr>calls := calls w @ [Ev_vips_image_new_mode name ''rs'' False]\<rparr>)
     | Some im \<Rightarrow>
         (Some im, w\<lparr>live := insert (Local 0) (live w),
                     calls := calls w @ [Ev_vips_image_new_mode name ''rs'' True]\<rparr>))"

text \<open>Lines 343 to 345: the length check, in \<open>size_t\<close> as C computes it.\<close>

definition name_too_long :: "vips \<Rightarrow> config \<Rightarrow> string \<Rightarrow> bool" where
  "name_too_long lib cfg base =
    (strlen base >
      of_nat (VIPS_PATH_MAX lib) - (strlen (CMYK2SRGBJPEG_JPEG_EXTENSION cfg) + 8))"

text \<open>Lines 355 to 358: the format \<open>"%s.%s[Q=%d]"\<close> into a buffer of \<open>VIPS_PATH_MAX\<close>.\<close>

definition formatted_name :: "config \<Rightarrow> string \<Rightarrow> string" where
  "formatted_name cfg base =
    base @ ''.'' @ CMYK2SRGBJPEG_JPEG_EXTENSION cfg @ ''[Q='' @
      fmt_d (CMYK2SRGBJPEG_JPEG_QUALITY cfg) @ '']''"

definition output_filename :: "vips \<Rightarrow> config \<Rightarrow> string \<Rightarrow> string" where
  "output_filename lib cfg base = vips_snprintf (VIPS_PATH_MAX lib) (formatted_name cfg base)"

text \<open>Lines 360 to 364: the transform of \<open>t[0]\<close> into \<open>t[1]\<close>.\<close>

definition icc_transform :: "vips \<Rightarrow> config \<Rightarrow> VipsImage \<Rightarrow> world \<Rightarrow> VipsImage option \<times> world" where
  "icc_transform lib cfg im w =
    (case vips_icc_transform lib (files w) im (CMYK2SRGBJPEG_SRGB_ICM cfg)
            (CMYK2SRGBJPEG_BACKSTOP_CMYK_ICC cfg) (CMYK2SRGBJPEG_CONVERSION_INTENT cfg) True of
       None \<Rightarrow>
         (None, w\<lparr>calls := calls w @
            [Ev_vips_icc_transform (CMYK2SRGBJPEG_SRGB_ICM cfg)
               (CMYK2SRGBJPEG_BACKSTOP_CMYK_ICC cfg) (CMYK2SRGBJPEG_CONVERSION_INTENT cfg)
               True False]\<rparr>)
     | Some out \<Rightarrow>
         (Some out, w\<lparr>live := insert (Local 1) (live w),
            calls := calls w @
              [Ev_vips_icc_transform (CMYK2SRGBJPEG_SRGB_ICM cfg)
                 (CMYK2SRGBJPEG_BACKSTOP_CMYK_ICC cfg) (CMYK2SRGBJPEG_CONVERSION_INTENT cfg)
                 True True]\<rparr>))"

text \<open>Line 369: \<open>vips_image_write_to_file (t[1], output_filename)\<close>.\<close>

definition write_to_file :: "vips \<Rightarrow> VipsImage \<Rightarrow> string \<Rightarrow> world \<Rightarrow> int \<times> world" where
  "write_to_file lib im name w =
    (let r = vips_image_write_to_file lib (files w) im name
     in (fst r, w\<lparr>files := snd r, calls := calls w @ [Ev_vips_image_write_to_file name (fst r)]\<rparr>))"

subsection \<open>\<open>main\<close>\<close>

text \<open>
  Lines 321 to 383, from \<open>global = vips_image_new()\<close> on: \<open>argv\<close> is the argument vector
  that option parsing left, \<open>argc\<close> its length.
\<close>

definition convert :: "vips \<Rightarrow> config \<Rightarrow> string list \<Rightarrow> world \<Rightarrow> outcome \<times> world" where
  "convert lib cfg argv w0 =
    (let w1 = vips_image_new w0 in
     if length argv \<noteq> 3
     then (Return (CMYK2SRGBJPEG_FATAL_ERROR cfg), g_object_unref w1)
     else
       case open_input lib (argv ! 1) w1 of
         (None, w2) \<Rightarrow> (Return (CMYK2SRGBJPEG_FATAL_ERROR cfg), g_object_unref w2)
       | (Some t0, w2) \<Rightarrow>
           if vips_image_get_interpretation lib t0 = VIPS_INTERPRETATION_CMYK
           then
             if name_too_long lib cfg (argv ! 2)
             then (Return (CMYK2SRGBJPEG_FATAL_ERROR cfg), g_object_unref w2)
             else
               case icc_transform lib cfg t0 w2 of
                 (None, w3) \<Rightarrow> (Return (CMYK2SRGBJPEG_FATAL_ERROR cfg), g_object_unref w3)
               | (Some t1, w3) \<Rightarrow>
                   (case write_to_file lib t1 (output_filename lib cfg (argv ! 2)) w3 of
                      (rc, w4) \<Rightarrow>
                        if rc \<noteq> 0
                        then (Return (CMYK2SRGBJPEG_FATAL_ERROR cfg), g_object_unref w4)
                        else (Return (CMYK2SRGBJPEG_CMYK_WITH_USABLE_ICC cfg), g_object_unref w4))
           else (Return (CMYK2SRGBJPEG_PROBABLY_NOT_CMYK cfg), g_object_unref w2))"

text \<open>
  Lines 295 to 384. The process starts with no object and no call made, on the file
  system \<open>fs\<close>. Lines 303 to 319 start the library and parse its options; either can end
  the process, before any image object exists. The locale and message set-up, the option
  context's own allocation and the text printed on the error stream are not modelled:
  no status and no file depends on them.
\<close>

definition main :: "vips \<Rightarrow> config \<Rightarrow> string list \<Rightarrow> filesystem \<Rightarrow> outcome \<times> world" where
  "main lib cfg argv fs =
    (let w0 = \<lparr>files = fs, live = {}, calls = []\<rparr> in
     if vips_init lib (case argv of [] \<Rightarrow> None | a # _ \<Rightarrow> Some a) \<noteq> 0
     then (Vips_error_exit ''unable to start VIPS'', w0)
     else
       case g_option_context_parse lib argv of
         None \<Rightarrow> (Vips_error_exit ''try --help'', w0)
       | Some argv' \<Rightarrow> convert lib cfg argv' w0)"

subsection \<open>A small library to run the driver on\<close>

text \<open>
  A stand-in for the library, to evaluate \<open>main\<close> on concrete inputs. A file decodes to
  an image when it is not empty: its first byte is the interpretation tag, the rest the
  pixels, and no profile is embedded. The transform needs the sRGB profile on the file
  system, and an embedded profile or else the backstop profile; it yields an image of
  interpretation 22 (sRGB). The write stores the tag and the pixels under the name up to
  its option bracket, and fails on an empty path.
\<close>

definition toy_decode :: "bytes \<Rightarrow> VipsImage option" where
  "toy_decode b =
    (case b of
       [] \<Rightarrow> None
     | t # ps \<Rightarrow> Some \<lparr>Type = uint t, icc_profile_data = None, pels = ps\<rparr>)"

definition toy_transform ::
  "filesystem \<Rightarrow> VipsImage \<Rightarrow> string \<Rightarrow> string \<Rightarrow> VipsIntent \<Rightarrow> bool \<Rightarrow> VipsImage option" where
  "toy_transform fs im output_profile input_profile intent embedded =
    (case fs output_profile of
       None \<Rightarrow> None
     | Some _ \<Rightarrow>
         (case (if embedded then icc_profile_data im else None) of
            Some _ \<Rightarrow> Some (im\<lparr>Type := 22\<rparr>)
          | None \<Rightarrow>
              (case fs input_profile of
                 None \<Rightarrow> None
               | Some _ \<Rightarrow> Some (im\<lparr>Type := 22\<rparr>))))"

definition toy_write :: "filesystem \<Rightarrow> VipsImage \<Rightarrow> string \<Rightarrow> int \<times> filesystem" where
  "toy_write fs im name =
    (let path = takeWhile (\<lambda>c. c \<noteq> CHR ''['') name in
     if path = [] then (- 1, fs)
     else (0, fs(path := Some (of_int (Type im) # pels im))))"

definition toy_vips :: vips where
  "toy_vips =
    \<lparr> VIPS_PATH_MAX = 4096,
      vips_init = (\<lambda>_. 0),
      g_option_context_parse = Some,
      vips_image_new_mode = (\<lambda>fs name mode. case fs name of None \<Rightarrow> None | Some b \<Rightarrow> toy_decode b),
      vips_image_get_interpretation = Type,
      vips_icc_transform = toy_transform,
      vips_image_write_to_file = toy_write \<rparr>"

text \<open>
  File systems: both profiles of the delivered configuration and a CMYK image
  \<open>in.tif\<close>; the same with an RGB image; and the CMYK image with no profile installed.
\<close>

definition profiles :: filesystem where
  "profiles =
    (\<lambda>_. None)
      (''/home/john/vips/share/nip2/data/HP5000_UVDuraImageGlossMaxQ.icc'' := Some [1],
       ''/home/john/vips/share/nip2/data/sRGB.icm'' := Some [2])"

definition fs_cmyk :: filesystem where
  "fs_cmyk = profiles(''in.tif'' := Some [15, 7, 8, 9, 10])"

definition fs_rgb :: filesystem where
  "fs_rgb = profiles(''in.tif'' := Some [22, 7, 8, 9])"

definition fs_no_profiles :: filesystem where
  "fs_no_profiles = (\<lambda>_. None)(''in.tif'' := Some [15, 7, 8, 9, 10])"

text \<open>
  A CMYK JPEG \<open>in.jpg\<close> beside the profiles, and the delivered configuration with the
  quality raised to 100, the top of its documented range.
\<close>

definition fs_jpg :: filesystem where
  "fs_jpg = profiles(''in.jpg'' := Some [15, 7, 8, 9, 10])"

definition quality_100 :: config where
  "quality_100 = delivered\<lparr>CMYK2SRGBJPEG_JPEG_QUALITY := 100\<rparr>"

subsection \<open>What a run did\<close>

text \<open>
  The output file is produced when a write call ended with status 0; the write step was
  called, and the transform step was called, when the run's calls hold such a call; the
  transform failed when such a call ended in failure.
\<close>

fun is_write :: "event \<Rightarrow> bool" where
  "is_write (Ev_vips_image_write_to_file name rc) = True"
| "is_write _ = False"

fun is_good_write :: "event \<Rightarrow> bool" where
  "is_good_write (Ev_vips_image_write_to_file name rc) = (rc = 0)"
| "is_good_write _ = False"

fun is_transform :: "event \<Rightarrow> bool" where
  "is_transform (Ev_vips_icc_transform outp inp intent embedded ok) = True"
| "is_transform _ = False"

fun is_failed_transform :: "event \<Rightarrow> bool" where
  "is_failed_transform (Ev_vips_icc_transform outp inp intent embedded ok) = (\<not> ok)"
| "is_failed_transform _ = False"

definition output_produced :: "world \<Rightarrow> bool" where
  "output_produced w = list_ex is_good_write (calls w)"

definition write_called :: "world \<Rightarrow> bool" where
  "write_called w = list_ex is_write (calls w)"

definition transform_called :: "world \<Rightarrow> bool" where
  "transform_called w = list_ex is_transform (calls w)"

definition transform_failed :: "world \<Rightarrow> bool" where
  "transform_failed w = list_ex is_failed_transform (calls w)"

text \<open>
  The run reaches the write step: the start-up hands over the three arguments \<open>args\<close>,
  the input opens as \<open>t0\<close>, its interpretation is CMYK, the length check passes and the
  transform yields \<open>t1\<close>.
\<close>

definition reaches_write ::
  "vips \<Rightarrow> config \<Rightarrow> string list \<Rightarrow> filesystem \<Rightarrow> string list \<Rightarrow> VipsImage \<Rightarrow> VipsImage \<Rightarrow> bool" where
  "reaches_write lib cfg argv fs args t0 t1 =
    (vips_init lib (case argv of [] \<Rightarrow> None | a # _ \<Rightarrow> Some a) = 0 \<and>
     g_option_context_parse lib argv = Some args \<and> length args = 3 \<and>
     vips_image_new_mode lib fs (args ! 1) ''rs'' = Some t0 \<and>
     vips_image_get_interpretation lib t0 = VIPS_INTERPRETATION_CMYK \<and>
     \<not> name_too_long lib cfg (args ! 2) \<and>
     vips_icc_transform lib fs t0 (CMYK2SRGBJPEG_SRGB_ICM cfg)
       (CMYK2SRGBJPEG_BACKSTOP_CMYK_ICC cfg) (CMYK2SRGBJPEG_CONVERSION_INTENT cfg) True =
       Some t1)"

section \<open>Properties\<close>

subsection \<open>Unfolding and evaluation\<close>

lemmas step_defs = main_def convert_def vips_image_new_def g_object_unref_def open_input_def
  icc_transform_def write_to_file_def

lemmas trace_defs = output_produced_def write_called_def transform_called_def transform_failed_def

lemmas name_defs = name_too_long_def strlen_def output_filename_def formatted_name_def
  vips_snprintf_def

lemma fmt_d_99: "fmt_d 99 = ''99''"
  by (simp add: fmt_d_def decimal.simps[of 99] decimal.simps[of 9] digit_def)

text \<open>Three runs on the small library: a conversion, an RGB input, a failing transform.\<close>

lemma run_cmyk:
  "main toy_vips delivered [''prog'', ''in.tif'', ''out''] fs_cmyk =
    (Return 4,
     \<lparr>files = fs_cmyk(''out.jpg'' := Some [22, 7, 8, 9, 10]), live = {},
      calls =
        [Ev_vips_image_new, Ev_vips_image_new_mode ''in.tif'' ''rs'' True,
         Ev_vips_icc_transform ''/home/john/vips/share/nip2/data/sRGB.icm''
           ''/home/john/vips/share/nip2/data/HP5000_UVDuraImageGlossMaxQ.icc''
           IM_INTENT_RELATIVE_COLORIMETRIC True True,
         Ev_vips_image_write_to_file ''out.jpg[Q=99]'' 0, Ev_g_object_unref]\<rparr>)"
  by (simp add: step_defs name_defs fmt_d_99 VIPS_INTERPRETATION_CMYK_def
      toy_vips_def toy_decode_def toy_transform_def toy_write_def profiles_def fs_cmyk_def
      delivered_def Let_def)

lemma run_rgb:
  "main toy_vips delivered [''prog'', ''in.tif'', ''out''] fs_rgb =
    (Return 0,
     \<lparr>files = fs_rgb, live = {},
      calls = [Ev_vips_image_new, Ev_vips_image_new_mode ''in.tif'' ''rs'' True, Ev_g_object_unref]\<rparr>)"
  by (simp add: step_defs VIPS_INTERPRETATION_CMYK_def
      toy_vips_def toy_decode_def profiles_def fs_rgb_def delivered_def Let_def)

lemma run_no_profiles:
  "main toy_vips delivered [''prog'', ''in.tif'', ''out''] fs_no_profiles =
    (Return 1,
     \<lparr>files = fs_no_profiles, live = {},
      calls =
        [Ev_vips_image_new, Ev_vips_image_new_mode ''in.tif'' ''rs'' True,
         Ev_vips_icc_transform ''/home/john/vips/share/nip2/data/sRGB.icm''
           ''/home/john/vips/share/nip2/data/HP5000_UVDuraImageGlossMaxQ.icc''
           IM_INTENT_RELATIVE_COLORIMETRIC True False,
         Ev_g_object_unref]\<rparr>)"
  by (simp add: step_defs name_defs VIPS_INTERPRETATION_CMYK_def
      toy_vips_def toy_decode_def toy_transform_def fs_no_profiles_def
      delivered_def Let_def)

text \<open>
  Three more: the write fails (the name starts with the option bracket, so its path is
  empty), the base is too long, and the input is missing.
\<close>

lemma run_write_fails:
  "main toy_vips delivered [''prog'', ''in.tif'', ''[x''] fs_cmyk =
    (Return 1,
     \<lparr>files = fs_cmyk, live = {},
      calls =
        [Ev_vips_image_new, Ev_vips_image_new_mode ''in.tif'' ''rs'' True,
         Ev_vips_icc_transform ''/home/john/vips/share/nip2/data/sRGB.icm''
           ''/home/john/vips/share/nip2/data/HP5000_UVDuraImageGlossMaxQ.icc''
           IM_INTENT_RELATIVE_COLORIMETRIC True True,
         Ev_vips_image_write_to_file ''[x.jpg[Q=99]'' (- 1), Ev_g_object_unref]\<rparr>)"
  by (simp add: step_defs name_defs fmt_d_99 VIPS_INTERPRETATION_CMYK_def
      toy_vips_def toy_decode_def toy_transform_def toy_write_def profiles_def fs_cmyk_def
      delivered_def Let_def)

lemma run_too_long:
  "main toy_vips delivered [''prog'', ''in.tif'', replicate 5000 CHR ''a''] fs_cmyk =
    (Return 1,
     \<lparr>files = fs_cmyk, live = {},
      calls = [Ev_vips_image_new, Ev_vips_image_new_mode ''in.tif'' ''rs'' True, Ev_g_object_unref]\<rparr>)"
  by (simp add: step_defs name_too_long_def strlen_def VIPS_INTERPRETATION_CMYK_def
      toy_vips_def toy_decode_def profiles_def fs_cmyk_def delivered_def Let_def)

lemma run_missing:
  "main toy_vips delivered [''prog'', ''missing.tif'', ''out''] fs_cmyk =
    (Return 1,
     \<lparr>files = fs_cmyk, live = {},
      calls =
        [Ev_vips_image_new, Ev_vips_image_new_mode ''missing.tif'' ''rs'' False,
         Ev_g_object_unref]\<rparr>)"
  by (simp add: step_defs toy_vips_def profiles_def fs_cmyk_def delivered_def Let_def)

subsection \<open>When the output is produced\<close>

lemma toy_reaches_write:
  "reaches_write toy_vips delivered [''prog'', ''in.tif'', base] fs_cmyk
     [''prog'', ''in.tif'', base]
     \<lparr>Type = 15, icc_profile_data = None, pels = [7, 8, 9, 10]\<rparr>
     \<lparr>Type = 22, icc_profile_data = None, pels = [7, 8, 9, 10]\<rparr> =
   (\<not> name_too_long toy_vips delivered base)"
  by (simp add: reaches_write_def toy_vips_def toy_decode_def toy_transform_def profiles_def
      fs_cmyk_def delivered_def VIPS_INTERPRETATION_CMYK_def)

lemma toy_failed_write_stores_nothing:
  "\<forall>t n. fst (vips_image_write_to_file toy_vips fs t n) \<noteq> 0 \<longrightarrow>
     snd (vips_image_write_to_file toy_vips fs t n) = fs"
  by (simp add: toy_vips_def toy_write_def Let_def)

text \<open>
  Claim C1. The output file is produced (the write step ends with status 0) exactly
  when the run reaches the write step and the write succeeds. When the transform fails,
  the file system is as it was, the write step was never called and the status is the
  fatal one. In every run that does not call the write step the file system is as it
  was. The write step is called exactly in the runs that reach it, and in such a run
  the file system at the end is the one that \<open>vips_image_write_to_file\<close> returned for
  the transformed image and the composed name, the fourth call of the run is that write
  with its status, and the status of the run is
  \<open>CMYK2SRGBJPEG_CMYK_WITH_USABLE_ICC\<close> when the write returned 0 and the fatal one
  otherwise. For a library whose failed write stores nothing, the file system differs
  from the initial one only in a run that produced the output.
\<close>

theorem output_iff_every_step_succeeds:
  "(output_produced (snd (main lib cfg argv fs)) \<longleftrightarrow>
     (\<exists>args t0 t1.
        reaches_write lib cfg argv fs args t0 t1 \<and>
        fst (vips_image_write_to_file lib fs t1 (output_filename lib cfg (args ! 2))) = 0)) \<and>
   (transform_failed (snd (main lib cfg argv fs)) \<longrightarrow>
      files (snd (main lib cfg argv fs)) = fs \<and>
      \<not> write_called (snd (main lib cfg argv fs)) \<and>
      fst (main lib cfg argv fs) = Return (CMYK2SRGBJPEG_FATAL_ERROR cfg)) \<and>
   (\<not> write_called (snd (main lib cfg argv fs)) \<longrightarrow>
      files (snd (main lib cfg argv fs)) = fs) \<and>
   (write_called (snd (main lib cfg argv fs)) \<longleftrightarrow>
      (\<exists>args t0 t1. reaches_write lib cfg argv fs args t0 t1)) \<and>
   (\<forall>args t0 t1.
      reaches_write lib cfg argv fs args t0 t1 \<longrightarrow>
        files (snd (main lib cfg argv fs)) =
          snd (vips_image_write_to_file lib fs t1 (output_filename lib cfg (args ! 2))) \<and>
        calls (snd (main lib cfg argv fs)) ! 3 =
          Ev_vips_image_write_to_file (output_filename lib cfg (args ! 2))
            (fst (vips_image_write_to_file lib fs t1 (output_filename lib cfg (args ! 2)))) \<and>
        fst (main lib cfg argv fs) =
          Return
            (if fst (vips_image_write_to_file lib fs t1 (output_filename lib cfg (args ! 2))) = 0
             then CMYK2SRGBJPEG_CMYK_WITH_USABLE_ICC cfg
             else CMYK2SRGBJPEG_FATAL_ERROR cfg)) \<and>
   ((\<forall>t n. fst (vips_image_write_to_file lib fs t n) \<noteq> 0 \<longrightarrow>
             snd (vips_image_write_to_file lib fs t n) = fs) \<longrightarrow>
    files (snd (main lib cfg argv fs)) \<noteq> fs \<longrightarrow>
    output_produced (snd (main lib cfg argv fs)))"
proof (intro conjI)
  show "output_produced (snd (main lib cfg argv fs)) \<longleftrightarrow>
     (\<exists>args t0 t1.
        reaches_write lib cfg argv fs args t0 t1 \<and>
        fst (vips_image_write_to_file lib fs t1 (output_filename lib cfg (args ! 2))) = 0)"
    by (auto simp: step_defs trace_defs reaches_write_def Let_def
        split: option.splits prod.splits)
  show "transform_failed (snd (main lib cfg argv fs)) \<longrightarrow>
      files (snd (main lib cfg argv fs)) = fs \<and>
      \<not> write_called (snd (main lib cfg argv fs)) \<and>
      fst (main lib cfg argv fs) = Return (CMYK2SRGBJPEG_FATAL_ERROR cfg)"
    by (auto simp: step_defs trace_defs Let_def split: option.splits prod.splits)
  show "\<not> write_called (snd (main lib cfg argv fs)) \<longrightarrow>
      files (snd (main lib cfg argv fs)) = fs"
    by (auto simp: step_defs trace_defs Let_def split: option.splits prod.splits)
  show "write_called (snd (main lib cfg argv fs)) \<longleftrightarrow>
      (\<exists>args t0 t1. reaches_write lib cfg argv fs args t0 t1)"
    by (auto simp: step_defs trace_defs reaches_write_def Let_def
        split: option.splits prod.splits)
  show "\<forall>args t0 t1.
      reaches_write lib cfg argv fs args t0 t1 \<longrightarrow>
        files (snd (main lib cfg argv fs)) =
          snd (vips_image_write_to_file lib fs t1 (output_filename lib cfg (args ! 2))) \<and>
        calls (snd (main lib cfg argv fs)) ! 3 =
          Ev_vips_image_write_to_file (output_filename lib cfg (args ! 2))
            (fst (vips_image_write_to_file lib fs t1 (output_filename lib cfg (args ! 2)))) \<and>
        fst (main lib cfg argv fs) =
          Return
            (if fst (vips_image_write_to_file lib fs t1 (output_filename lib cfg (args ! 2))) = 0
             then CMYK2SRGBJPEG_CMYK_WITH_USABLE_ICC cfg
             else CMYK2SRGBJPEG_FATAL_ERROR cfg)"
    by (simp add: step_defs reaches_write_def Let_def)
  show "(\<forall>t n. fst (vips_image_write_to_file lib fs t n) \<noteq> 0 \<longrightarrow>
             snd (vips_image_write_to_file lib fs t n) = fs) \<longrightarrow>
    files (snd (main lib cfg argv fs)) \<noteq> fs \<longrightarrow>
    output_produced (snd (main lib cfg argv fs))"
    by (auto simp: step_defs trace_defs Let_def split: option.splits prod.splits)
qed

text \<open>
  On the small library: the conversion stores \<open>out.jpg\<close> and nothing else; a failing
  write (base \<open>[x\<close>), a failing transform and an RGB input leave the file system as it
  was.
\<close>

theorem output_iff_every_step_succeeds_witness:
  "output_produced (snd (main toy_vips delivered [''prog'', ''in.tif'', ''out''] fs_cmyk)) \<and>
   write_called (snd (main toy_vips delivered [''prog'', ''in.tif'', ''out''] fs_cmyk)) \<and>
   files (snd (main toy_vips delivered [''prog'', ''in.tif'', ''out''] fs_cmyk)) =
     fs_cmyk(''out.jpg'' := Some [22, 7, 8, 9, 10]) \<and>
   files (snd (main toy_vips delivered [''prog'', ''in.tif'', ''out''] fs_cmyk)) \<noteq> fs_cmyk \<and>
   calls (snd (main toy_vips delivered [''prog'', ''in.tif'', ''out''] fs_cmyk)) ! 3 =
     Ev_vips_image_write_to_file ''out.jpg[Q=99]'' 0 \<and>
   fst (main toy_vips delivered [''prog'', ''in.tif'', ''out''] fs_cmyk) = Return 4 \<and>
   files (snd (main toy_vips delivered [''prog'', ''in.tif'', ''[x''] fs_cmyk)) = fs_cmyk \<and>
   fst (main toy_vips delivered [''prog'', ''in.tif'', ''[x''] fs_cmyk) = Return 1 \<and>
   transform_failed (snd (main toy_vips delivered [''prog'', ''in.tif'', ''out''] fs_no_profiles)) \<and>
   files (snd (main toy_vips delivered [''prog'', ''in.tif'', ''out''] fs_no_profiles)) =
     fs_no_profiles \<and>
   \<not> write_called (snd (main toy_vips delivered [''prog'', ''in.tif'', ''out''] fs_no_profiles)) \<and>
   \<not> write_called (snd (main toy_vips delivered [''prog'', ''in.tif'', ''out''] fs_rgb)) \<and>
   files (snd (main toy_vips delivered [''prog'', ''in.tif'', ''out''] fs_rgb)) = fs_rgb"
proof -
  let ?argv = "[''prog'', ''in.tif'', ''out'']"
  let ?bad = "[''prog'', ''in.tif'', ''[x'']"
  let ?t0 = "\<lparr>Type = 15, icc_profile_data = None, pels = [7, 8, 9, 10]\<rparr>"
  let ?t1 = "\<lparr>Type = 22, icc_profile_data = None, pels = [7, 8, 9, 10]\<rparr>"
  note thm_cmyk = output_iff_every_step_succeeds [of toy_vips delivered ?argv fs_cmyk]
  note thm_bad = output_iff_every_step_succeeds [of toy_vips delivered ?bad fs_cmyk]
  note thm_no_profiles =
    output_iff_every_step_succeeds [of toy_vips delivered ?argv fs_no_profiles]
  note thm_rgb = output_iff_every_step_succeeds [of toy_vips delivered ?argv fs_rgb]
  have short: "\<not> name_too_long toy_vips delivered ''out''"
    "\<not> name_too_long toy_vips delivered ''[x''"
    by (simp_all add: name_too_long_def strlen_def toy_vips_def delivered_def)
  have reach: "reaches_write toy_vips delivered ?argv fs_cmyk ?argv ?t0 ?t1"
    by (simp add: toy_reaches_write short)
  have reach_bad: "reaches_write toy_vips delivered ?bad fs_cmyk ?bad ?t0 ?t1"
    by (simp add: toy_reaches_write short)
  have name: "output_filename toy_vips delivered (?argv ! 2) = ''out.jpg[Q=99]''"
    and name_bad: "output_filename toy_vips delivered (?bad ! 2) = ''[x.jpg[Q=99]''"
    by (simp_all add: output_filename_def formatted_name_def vips_snprintf_def fmt_d_99
        toy_vips_def delivered_def)
  have wrote: "vips_image_write_to_file toy_vips fs_cmyk ?t1 ''out.jpg[Q=99]'' =
      (0, fs_cmyk(''out.jpg'' := Some [22, 7, 8, 9, 10]))"
    and wrote_bad: "vips_image_write_to_file toy_vips fs_cmyk ?t1 ''[x.jpg[Q=99]'' =
      (- 1, fs_cmyk)"
    by (simp_all add: toy_vips_def toy_write_def Let_def)
  have differs: "fs_cmyk(''out.jpg'' := Some [22, 7, 8, 9, 10]) \<noteq> fs_cmyk"
    by (simp add: fun_upd_idem_iff fs_cmyk_def profiles_def)
  from thm_cmyk [THEN conjunct2, THEN conjunct2, THEN conjunct2, THEN conjunct2,
      THEN conjunct1, rule_format, OF reach]
  have good:
    "files (snd (main toy_vips delivered ?argv fs_cmyk)) =
       fs_cmyk(''out.jpg'' := Some [22, 7, 8, 9, 10])"
    "calls (snd (main toy_vips delivered ?argv fs_cmyk)) ! 3 =
       Ev_vips_image_write_to_file ''out.jpg[Q=99]'' 0"
    "fst (main toy_vips delivered ?argv fs_cmyk) = Return 4"
    unfolding name wrote by (simp_all add: delivered_def)
  from thm_cmyk [THEN conjunct2, THEN conjunct2, THEN conjunct2, THEN conjunct1] reach
  have called: "write_called (snd (main toy_vips delivered ?argv fs_cmyk))"
    by blast
  have changed: "files (snd (main toy_vips delivered ?argv fs_cmyk)) \<noteq> fs_cmyk"
    using good(1) differs by simp
  have produced: "output_produced (snd (main toy_vips delivered ?argv fs_cmyk))"
    by (rule mp [OF mp [OF thm_cmyk [THEN conjunct2, THEN conjunct2, THEN conjunct2,
              THEN conjunct2, THEN conjunct2] toy_failed_write_stores_nothing] changed])
  from thm_bad [THEN conjunct2, THEN conjunct2, THEN conjunct2, THEN conjunct2,
      THEN conjunct1, rule_format, OF reach_bad]
  have bad:
    "files (snd (main toy_vips delivered ?bad fs_cmyk)) = fs_cmyk"
    "fst (main toy_vips delivered ?bad fs_cmyk) = Return 1"
    unfolding name_bad wrote_bad by (simp_all add: delivered_def)
  have failed: "transform_failed (snd (main toy_vips delivered ?argv fs_no_profiles))"
    by (simp add: run_no_profiles transform_failed_def)
  from thm_no_profiles [THEN conjunct2, THEN conjunct1] failed
  have unwritten:
    "files (snd (main toy_vips delivered ?argv fs_no_profiles)) = fs_no_profiles \<and>
     \<not> write_called (snd (main toy_vips delivered ?argv fs_no_profiles))"
    by simp
  have uncalled: "\<not> write_called (snd (main toy_vips delivered ?argv fs_rgb))"
    by (simp add: run_rgb write_called_def)
  from thm_rgb [THEN conjunct2, THEN conjunct2, THEN conjunct1] uncalled
  have "files (snd (main toy_vips delivered ?argv fs_rgb)) = fs_rgb"
    by simp
  with produced called good bad failed unwritten uncalled changed show ?thesis
    by simp
qed

subsection \<open>Inputs that are not CMYK\<close>

text \<open>
  Claim C2. When the start-up hands over three arguments and the input opens as an
  image whose interpretation is not CMYK, \<open>main\<close> returns
  \<open>CMYK2SRGBJPEG_PROBABLY_NOT_CMYK\<close> (0 as delivered), the file system is as it was,
  and neither the write step nor the transform step was called.
\<close>

theorem not_cmyk_returns_0_and_writes_nothing:
  assumes "vips_init lib (case argv of [] \<Rightarrow> None | a # _ \<Rightarrow> Some a) = 0"
    and "g_option_context_parse lib argv = Some args"
    and "length args = 3"
    and "vips_image_new_mode lib fs (args ! 1) ''rs'' = Some t0"
    and "vips_image_get_interpretation lib t0 \<noteq> VIPS_INTERPRETATION_CMYK"
  shows "fst (main lib cfg argv fs) = Return (CMYK2SRGBJPEG_PROBABLY_NOT_CMYK cfg) \<and>
         CMYK2SRGBJPEG_PROBABLY_NOT_CMYK delivered = 0 \<and>
         files (snd (main lib cfg argv fs)) = fs \<and>
         \<not> write_called (snd (main lib cfg argv fs)) \<and>
         \<not> transform_called (snd (main lib cfg argv fs))"
  using assms by (simp add: step_defs trace_defs Let_def delivered_def)

theorem not_cmyk_returns_0_and_writes_nothing_witness:
  "fst (main toy_vips delivered [''prog'', ''in.tif'', ''out''] fs_rgb) = Return 0 \<and>
   files (snd (main toy_vips delivered [''prog'', ''in.tif'', ''out''] fs_rgb)) = fs_rgb \<and>
   \<not> write_called (snd (main toy_vips delivered [''prog'', ''in.tif'', ''out''] fs_rgb)) \<and>
   \<not> transform_called (snd (main toy_vips delivered [''prog'', ''in.tif'', ''out''] fs_rgb))"
  using not_cmyk_returns_0_and_writes_nothing
    [of toy_vips "[''prog'', ''in.tif'', ''out'']" "[''prog'', ''in.tif'', ''out'']"
      fs_rgb "\<lparr>Type = 22, icc_profile_data = None, pels = [7, 8, 9]\<rparr>" delivered]
  by (simp add: toy_vips_def toy_decode_def profiles_def fs_rgb_def
      VIPS_INTERPRETATION_CMYK_def delivered_def)

text \<open>
  Claim C10. The length check sits inside the CMYK branch: an input that is not CMYK
  gets \<open>CMYK2SRGBJPEG_PROBABLY_NOT_CMYK\<close> (0), not the fatal status (1), also when the
  output base fails the length check.
\<close>

theorem not_cmyk_skips_length_check:
  assumes "vips_init lib (case argv of [] \<Rightarrow> None | a # _ \<Rightarrow> Some a) = 0"
    and "g_option_context_parse lib argv = Some args"
    and "length args = 3"
    and "vips_image_new_mode lib fs (args ! 1) ''rs'' = Some t0"
    and "vips_image_get_interpretation lib t0 \<noteq> VIPS_INTERPRETATION_CMYK"
    and "name_too_long lib cfg (args ! 2)"
  shows "fst (main lib cfg argv fs) = Return (CMYK2SRGBJPEG_PROBABLY_NOT_CMYK cfg) \<and>
         CMYK2SRGBJPEG_PROBABLY_NOT_CMYK delivered = 0 \<and>
         CMYK2SRGBJPEG_FATAL_ERROR delivered = 1"
  using assms by (simp add: step_defs Let_def delivered_def)

lemma base_5000_too_long: "name_too_long toy_vips delivered (replicate 5000 CHR ''a'')"
  by (simp add: name_too_long_def strlen_def toy_vips_def delivered_def)

theorem not_cmyk_skips_length_check_witness:
  "name_too_long toy_vips delivered (replicate 5000 CHR ''a'') \<and>
   fst (main toy_vips delivered [''prog'', ''in.tif'', replicate 5000 CHR ''a''] fs_rgb) = Return 0"
proof -
  let ?argv = "[''prog'', ''in.tif'', replicate 5000 CHR ''a'']"
  have "fst (main toy_vips delivered ?argv fs_rgb) =
      Return (CMYK2SRGBJPEG_PROBABLY_NOT_CMYK delivered)"
    using not_cmyk_skips_length_check [of toy_vips ?argv ?argv fs_rgb
        "\<lparr>Type = 22, icc_profile_data = None, pels = [7, 8, 9]\<rparr>" delivered]
      base_5000_too_long
    by (simp add: toy_vips_def toy_decode_def profiles_def fs_rgb_def
        VIPS_INTERPRETATION_CMYK_def)
  then show ?thesis using base_5000_too_long by (simp add: delivered_def)
qed

subsection \<open>Fatal errors\<close>

text \<open>
  Claim C4. For a CMYK input whose output base satisfies the condition of lines 343 to
  345, computed in \<open>size_t\<close>, \<open>main\<close> returns \<open>CMYK2SRGBJPEG_FATAL_ERROR\<close> (1 as
  delivered); the file system is as it was and neither the transform nor the write step
  was called.
\<close>

theorem long_base_is_fatal:
  assumes "vips_init lib (case argv of [] \<Rightarrow> None | a # _ \<Rightarrow> Some a) = 0"
    and "g_option_context_parse lib argv = Some args"
    and "length args = 3"
    and "vips_image_new_mode lib fs (args ! 1) ''rs'' = Some t0"
    and "vips_image_get_interpretation lib t0 = VIPS_INTERPRETATION_CMYK"
    and "strlen (args ! 2) >
           of_nat (VIPS_PATH_MAX lib) - (strlen (CMYK2SRGBJPEG_JPEG_EXTENSION cfg) + 8)"
  shows "fst (main lib cfg argv fs) = Return (CMYK2SRGBJPEG_FATAL_ERROR cfg) \<and>
         CMYK2SRGBJPEG_FATAL_ERROR delivered = 1 \<and>
         files (snd (main lib cfg argv fs)) = fs \<and>
         \<not> write_called (snd (main lib cfg argv fs)) \<and>
         \<not> transform_called (snd (main lib cfg argv fs))"
  using assms by (simp add: step_defs trace_defs name_too_long_def Let_def delivered_def)

theorem long_base_is_fatal_witness:
  "fst (main toy_vips delivered [''prog'', ''in.tif'', replicate 5000 CHR ''a''] fs_cmyk) =
     Return 1 \<and>
   files (snd (main toy_vips delivered [''prog'', ''in.tif'', replicate 5000 CHR ''a''] fs_cmyk)) =
     fs_cmyk \<and>
   \<not> write_called
       (snd (main toy_vips delivered [''prog'', ''in.tif'', replicate 5000 CHR ''a''] fs_cmyk))"
proof -
  let ?argv = "[''prog'', ''in.tif'', replicate 5000 CHR ''a'']"
  have long: "strlen (?argv ! 2) >
      of_nat (VIPS_PATH_MAX toy_vips) - (strlen (CMYK2SRGBJPEG_JPEG_EXTENSION delivered) + 8)"
    by (simp add: strlen_def toy_vips_def delivered_def)
  have opened: "vips_image_new_mode toy_vips fs_cmyk (?argv ! 1) ''rs'' =
      Some \<lparr>Type = 15, icc_profile_data = None, pels = [7, 8, 9, 10]\<rparr>"
    by (simp add: toy_vips_def toy_decode_def profiles_def fs_cmyk_def)
  have "vips_init toy_vips (case ?argv of [] \<Rightarrow> None | a # _ \<Rightarrow> Some a) = 0"
    and "g_option_context_parse toy_vips ?argv = Some ?argv"
    and "vips_image_get_interpretation toy_vips
          \<lparr>Type = 15, icc_profile_data = None, pels = [7, 8, 9, 10]\<rparr> = VIPS_INTERPRETATION_CMYK"
    by (simp_all add: toy_vips_def VIPS_INTERPRETATION_CMYK_def)
  from long_base_is_fatal [OF this(1) this(2) _ opened this(3) long]
  show ?thesis by (simp add: delivered_def)
qed

text \<open>
  Claim C5. When the argument vector left by option parsing does not have three
  entries (the program name and two positional arguments), or the input does not open,
  \<open>main\<close> returns \<open>CMYK2SRGBJPEG_FATAL_ERROR\<close> (1 as delivered), the file system is as
  it was, and neither the transform nor the write step was called.
\<close>

theorem bad_arguments_or_open_failure_is_fatal:
  assumes "vips_init lib (case argv of [] \<Rightarrow> None | a # _ \<Rightarrow> Some a) = 0"
    and "g_option_context_parse lib argv = Some args"
    and "length args \<noteq> 3 \<or> vips_image_new_mode lib fs (args ! 1) ''rs'' = None"
  shows "fst (main lib cfg argv fs) = Return (CMYK2SRGBJPEG_FATAL_ERROR cfg) \<and>
         CMYK2SRGBJPEG_FATAL_ERROR delivered = 1 \<and>
         files (snd (main lib cfg argv fs)) = fs \<and>
         \<not> write_called (snd (main lib cfg argv fs)) \<and>
         \<not> transform_called (snd (main lib cfg argv fs))"
  using assms by (auto simp: step_defs trace_defs Let_def delivered_def)

theorem bad_arguments_or_open_failure_is_fatal_witness:
  "fst (main toy_vips delivered [''prog'', ''in.tif''] fs_cmyk) = Return 1 \<and>
   files (snd (main toy_vips delivered [''prog'', ''in.tif''] fs_cmyk)) = fs_cmyk \<and>
   fst (main toy_vips delivered [''prog'', ''in.tif'', ''out'', ''more''] fs_cmyk) = Return 1 \<and>
   files (snd (main toy_vips delivered [''prog'', ''in.tif'', ''out'', ''more''] fs_cmyk)) =
     fs_cmyk \<and>
   fst (main toy_vips delivered [''prog'', ''missing.tif'', ''out''] fs_cmyk) = Return 1 \<and>
   files (snd (main toy_vips delivered [''prog'', ''missing.tif'', ''out''] fs_cmyk)) = fs_cmyk \<and>
   \<not> write_called (snd (main toy_vips delivered [''prog'', ''missing.tif'', ''out''] fs_cmyk))"
  using bad_arguments_or_open_failure_is_fatal
      [of toy_vips "[''prog'', ''in.tif'']" "[''prog'', ''in.tif'']" fs_cmyk delivered]
    bad_arguments_or_open_failure_is_fatal
      [of toy_vips "[''prog'', ''in.tif'', ''out'', ''more'']"
        "[''prog'', ''in.tif'', ''out'', ''more'']" fs_cmyk delivered]
    bad_arguments_or_open_failure_is_fatal
      [of toy_vips "[''prog'', ''missing.tif'', ''out'']" "[''prog'', ''missing.tif'', ''out'']"
        fs_cmyk delivered]
  by (simp add: toy_vips_def profiles_def fs_cmyk_def delivered_def)

subsection \<open>The image objects are released\<close>

text \<open>
  Claim C7. Once the start-up is through, \<open>main\<close> returns a status on every path, and
  when it does no object is live: \<open>vips_image_new\<close> is the first call of the run,
  \<open>g_object_unref\<close> the last, and it is called exactly once.
\<close>

theorem global_released_on_every_return:
  assumes "vips_init lib (case argv of [] \<Rightarrow> None | a # _ \<Rightarrow> Some a) = 0"
    and "g_option_context_parse lib argv = Some args"
  shows "(\<exists>c. fst (main lib cfg argv fs) = Return c) \<and>
         live (snd (main lib cfg argv fs)) = {} \<and>
         hd (calls (snd (main lib cfg argv fs))) = Ev_vips_image_new \<and>
         last (calls (snd (main lib cfg argv fs))) = Ev_g_object_unref \<and>
         length (filter (\<lambda>e. e = Ev_g_object_unref) (calls (snd (main lib cfg argv fs)))) = 1"
  using assms by (auto simp: step_defs Let_def split: option.splits prod.splits)

text \<open>
  The six returns: conversion, input not CMYK, failed transform, failed write, base too
  long, input missing.
\<close>

theorem global_released_on_every_return_witness:
  "live (snd (main toy_vips delivered [''prog'', ''in.tif'', ''out''] fs_cmyk)) = {} \<and>
   last (calls (snd (main toy_vips delivered [''prog'', ''in.tif'', ''out''] fs_cmyk))) =
     Ev_g_object_unref \<and>
   live (snd (main toy_vips delivered [''prog'', ''in.tif'', ''out''] fs_rgb)) = {} \<and>
   last (calls (snd (main toy_vips delivered [''prog'', ''in.tif'', ''out''] fs_rgb))) =
     Ev_g_object_unref \<and>
   live (snd (main toy_vips delivered [''prog'', ''in.tif'', ''out''] fs_no_profiles)) = {} \<and>
   last (calls (snd (main toy_vips delivered [''prog'', ''in.tif'', ''out''] fs_no_profiles))) =
     Ev_g_object_unref \<and>
   live (snd (main toy_vips delivered [''prog'', ''in.tif'', ''[x''] fs_cmyk)) = {} \<and>
   last (calls (snd (main toy_vips delivered [''prog'', ''in.tif'', ''[x''] fs_cmyk))) =
     Ev_g_object_unref \<and>
   live (snd (main toy_vips delivered [''prog'', ''in.tif'', replicate 5000 CHR ''a'']
                fs_cmyk)) = {} \<and>
   last (calls (snd (main toy_vips delivered [''prog'', ''in.tif'', replicate 5000 CHR ''a'']
                       fs_cmyk))) =
     Ev_g_object_unref \<and>
   live (snd (main toy_vips delivered [''prog'', ''missing.tif'', ''out''] fs_cmyk)) = {} \<and>
   last (calls (snd (main toy_vips delivered [''prog'', ''missing.tif'', ''out''] fs_cmyk))) =
     Ev_g_object_unref"
proof -
  have start: "vips_init toy_vips (case argv of [] \<Rightarrow> None | a # _ \<Rightarrow> Some a) = 0"
    and parse: "g_option_context_parse toy_vips argv = Some argv" for argv
    by (simp_all add: toy_vips_def)
  have "live (snd (main toy_vips delivered argv fs)) = {} \<and>
        last (calls (snd (main toy_vips delivered argv fs))) = Ev_g_object_unref" for argv fs
    using global_released_on_every_return [OF start parse, where cfg = delivered and fs = fs]
    by simp
  then show ?thesis by simp
qed

subsection \<open>The statuses of a conversion\<close>

text \<open>A run in which every step succeeds, in full.\<close>

lemma success_run:
  assumes "vips_init lib (case argv of [] \<Rightarrow> None | a # _ \<Rightarrow> Some a) = 0"
    and "g_option_context_parse lib argv = Some args"
    and "length args = 3"
    and "vips_image_new_mode lib fs (args ! 1) ''rs'' = Some t0"
    and "vips_image_get_interpretation lib t0 = VIPS_INTERPRETATION_CMYK"
    and "\<not> name_too_long lib cfg (args ! 2)"
    and "vips_icc_transform lib fs t0 (CMYK2SRGBJPEG_SRGB_ICM cfg)
          (CMYK2SRGBJPEG_BACKSTOP_CMYK_ICC cfg) (CMYK2SRGBJPEG_CONVERSION_INTENT cfg) True = Some t1"
    and "vips_image_write_to_file lib fs t1 (output_filename lib cfg (args ! 2)) = (0, fs')"
  shows "main lib cfg argv fs =
    (Return (CMYK2SRGBJPEG_CMYK_WITH_USABLE_ICC cfg),
     \<lparr>files = fs', live = {},
      calls =
        [Ev_vips_image_new, Ev_vips_image_new_mode (args ! 1) ''rs'' True,
         Ev_vips_icc_transform (CMYK2SRGBJPEG_SRGB_ICM cfg) (CMYK2SRGBJPEG_BACKSTOP_CMYK_ICC cfg)
           (CMYK2SRGBJPEG_CONVERSION_INTENT cfg) True True,
         Ev_vips_image_write_to_file (output_filename lib cfg (args ! 2)) 0,
         Ev_g_object_unref]\<rparr>)"
  using assms by (simp add: step_defs Let_def)

text \<open>
  \<open>main\<close> returns one of three statuses. \<open>CMYK2SRGBJPEG_CMYK_NO_ICC\<close> and
  \<open>CMYK2SRGBJPEG_CMYK_WITH_UNUSABLE_ICC\<close> are defined and never returned.
\<close>

lemma main_statuses:
  "fst (main lib cfg argv fs) = Return c \<Longrightarrow>
   c = CMYK2SRGBJPEG_FATAL_ERROR cfg \<or> c = CMYK2SRGBJPEG_PROBABLY_NOT_CMYK cfg \<or>
   c = CMYK2SRGBJPEG_CMYK_WITH_USABLE_ICC cfg"
  by (auto simp: step_defs Let_def split: option.splits prod.splits if_splits)

text \<open>
  Claim C3 says that a CMYK image with no embedded profile, converted with the backstop
  profile, gets status 3 (\<open>CMYK2SRGBJPEG_CMYK_NO_ICC\<close>). The code returns 4: the image
  \<open>in.tif\<close> of \<open>fs_cmyk\<close> opens with no embedded profile, the conversion succeeds and
  the output is produced, and the status is \<open>CMYK2SRGBJPEG_CMYK_WITH_USABLE_ICC\<close>.
\<close>

theorem no_embedded_profile_still_returns_4:
  "vips_image_new_mode toy_vips fs_cmyk ''in.tif'' ''rs'' =
     Some \<lparr>Type = 15, icc_profile_data = None, pels = [7, 8, 9, 10]\<rparr> \<and>
   fst (main toy_vips delivered [''prog'', ''in.tif'', ''out''] fs_cmyk) = Return 4 \<and>
   output_produced (snd (main toy_vips delivered [''prog'', ''in.tif'', ''out''] fs_cmyk)) \<and>
   CMYK2SRGBJPEG_CMYK_NO_ICC delivered = 3"
  by (simp add: run_cmyk output_produced_def)
    (simp add: toy_vips_def toy_decode_def fs_cmyk_def profiles_def delivered_def)

subsection \<open>Output over the input\<close>

text \<open>
  Claim C8 says that a conversion whose output path is the input path is rejected by a
  check. The code has no such check: with the input \<open>in.jpg\<close> and the output base
  \<open>in\<close>, the write step is called with \<open>in.jpg[Q=99]\<close>, the status is 4, and on the small
  library the input file is replaced by the converted image.
\<close>

theorem output_over_input_is_written:
  "fs_jpg ''in.jpg'' = Some [15, 7, 8, 9, 10] \<and>
   fst (main toy_vips delivered [''prog'', ''in.jpg'', ''in''] fs_jpg) = Return 4 \<and>
   calls (snd (main toy_vips delivered [''prog'', ''in.jpg'', ''in''] fs_jpg)) ! 3 =
     Ev_vips_image_write_to_file (''in.jpg'' @ ''[Q=99]'') 0 \<and>
   files (snd (main toy_vips delivered [''prog'', ''in.jpg'', ''in''] fs_jpg)) ''in.jpg'' =
     Some [22, 7, 8, 9, 10]"
  by (simp add: step_defs name_defs fmt_d_99 VIPS_INTERPRETATION_CMYK_def
      toy_vips_def toy_decode_def toy_transform_def toy_write_def profiles_def fs_jpg_def
      delivered_def Let_def)

subsection \<open>The name handed to the write step\<close>

text \<open>Comparing lengths in \<open>size_t\<close> is comparing them, below \<open>2 ^ 64\<close>.\<close>

lemma size_t_le:
  fixes n m :: nat
  assumes "n < 2 ^ 64" and "m < 2 ^ 64"
  shows "((of_nat n :: 64 word) \<le> of_nat m) = (n \<le> m)"
proof -
  have "unat (of_nat n :: 64 word) = n" and "unat (of_nat m :: 64 word) = m"
    using assms by (auto intro: of_nat_inverse)
  then show ?thesis by (simp add: word_le_nat_alt)
qed

lemma size_t_room:
  fixes e P :: nat
  assumes "e + 8 \<le> P"
  shows "(of_nat P :: 64 word) - (of_nat e + 8) = of_nat (P - (e + 8))"
  using assms by simp

text \<open>
  A quality of at most two characters: a base that passes the length check is followed
  by the period, the extension and the whole quality specifier.
\<close>

lemma name_exact:
  assumes "length base < 2 ^ 64"
    and "VIPS_PATH_MAX lib < 2 ^ 64"
    and "length (CMYK2SRGBJPEG_JPEG_EXTENSION cfg) + 8 \<le> VIPS_PATH_MAX lib"
    and "length (fmt_d (CMYK2SRGBJPEG_JPEG_QUALITY cfg)) \<le> 2"
    and "\<not> name_too_long lib cfg base"
  shows "output_filename lib cfg base = formatted_name cfg base"
proof -
  let ?e = "length (CMYK2SRGBJPEG_JPEG_EXTENSION cfg)"
  have "(of_nat (length base) :: 64 word) \<le> of_nat (VIPS_PATH_MAX lib - (?e + 8))"
    using assms(5) size_t_room [OF assms(3)]
    by (simp add: name_too_long_def strlen_def not_less)
  then have "length base \<le> VIPS_PATH_MAX lib - (?e + 8)"
    using assms(1,2) by (simp add: size_t_le)
  then have "length (formatted_name cfg base) \<le> VIPS_PATH_MAX lib - 1"
    using assms(3,4) by (simp add: formatted_name_def)
  then show ?thesis
    by (simp add: output_filename_def vips_snprintf_def)
qed

lemma delivered_name_exact:
  assumes "length base < 2 ^ 64"
    and "VIPS_PATH_MAX lib = 4096"
    and "\<not> name_too_long lib delivered base"
  shows "output_filename lib delivered base = base @ ''.jpg[Q=99]''"
proof -
  have "output_filename lib delivered base = formatted_name delivered base"
    using assms by (intro name_exact) (simp_all add: delivered_def fmt_d_99)
  then show ?thesis by (simp add: formatted_name_def delivered_def fmt_d_99)
qed

text \<open>
  A quality of three characters (100, the specifier the comment of line 341 names): the
  longest base the check lets through fills the buffer, and the closing bracket is cut.
\<close>

lemma name_loses_bracket:
  assumes "VIPS_PATH_MAX lib < 2 ^ 64"
    and "length (CMYK2SRGBJPEG_JPEG_EXTENSION cfg) + 8 \<le> VIPS_PATH_MAX lib"
    and "length (fmt_d (CMYK2SRGBJPEG_JPEG_QUALITY cfg)) = 3"
    and "length base = VIPS_PATH_MAX lib - (length (CMYK2SRGBJPEG_JPEG_EXTENSION cfg) + 8)"
  shows "\<not> name_too_long lib cfg base \<and>
         output_filename lib cfg base = butlast (formatted_name cfg base)"
proof -
  let ?e = "length (CMYK2SRGBJPEG_JPEG_EXTENSION cfg)"
  have small: "length base < 2 ^ 64" "VIPS_PATH_MAX lib - (?e + 8) < 2 ^ 64"
    using assms(1,4) by simp_all
  have "(of_nat (length base) :: 64 word) \<le> of_nat (VIPS_PATH_MAX lib - (?e + 8))"
    using small assms(4) by (simp add: size_t_le)
  then have passes: "\<not> name_too_long lib cfg base"
    using size_t_room [OF assms(2)] by (simp add: name_too_long_def strlen_def not_less)
  have "length (formatted_name cfg base) = VIPS_PATH_MAX lib"
    using assms(2,3,4) by (simp add: formatted_name_def)
  then have "output_filename lib cfg base = butlast (formatted_name cfg base)"
    by (simp add: output_filename_def vips_snprintf_def butlast_conv_take)
  with passes show ?thesis by simp
qed

lemma fmt_d_100: "fmt_d 100 = ''100''"
  by (simp add: fmt_d_def decimal.simps[of 100] decimal.simps[of 10] decimal.simps[of "Suc 0"]
      digit_def)

lemma truncated_name:
  "\<not> name_too_long toy_vips quality_100 (replicate 4085 CHR ''a'') \<and>
   formatted_name quality_100 (replicate 4085 CHR ''a'') =
     replicate 4085 CHR ''a'' @ ''.jpg[Q=100]'' \<and>
   output_filename toy_vips quality_100 (replicate 4085 CHR ''a'') =
     replicate 4085 CHR ''a'' @ ''.jpg[Q=100''"
  by (simp add: name_defs fmt_d_100 toy_vips_def quality_100_def delivered_def)

text \<open>
  Claim C6 says that the name handed to the write step is the base, a period, the
  extension and the quality specifier whenever the length check passes. With the
  quality configured as 100 and a base of 4085 characters (\<open>VIPS_PATH_MAX\<close> being 4096)
  the check passes, the text to format is the base followed by \<open>.jpg[Q=100]\<close>, and
  the write step is called with a name that ends in \<open>.jpg[Q=100\<close>.
\<close>

theorem quality_100_name_is_cut:
  "\<not> name_too_long toy_vips quality_100 (replicate 4085 CHR ''a'') \<and>
   formatted_name quality_100 (replicate 4085 CHR ''a'') =
     replicate 4085 CHR ''a'' @ ''.jpg[Q=100]'' \<and>
   calls (snd (main toy_vips quality_100 [''prog'', ''in.tif'', replicate 4085 CHR ''a'']
                 fs_cmyk)) ! 3 =
     Ev_vips_image_write_to_file (replicate 4085 CHR ''a'' @ ''.jpg[Q=100'') 0"
proof -
  let ?base = "replicate 4085 CHR ''a''"
  let ?argv = "[''prog'', ''in.tif'', ?base]"
  have name: "output_filename toy_vips quality_100 (?argv ! 2) = ?base @ ''.jpg[Q=100''"
    using truncated_name by simp
  have short: "\<not> name_too_long toy_vips quality_100 (?argv ! 2)"
    using truncated_name by simp
  have "takeWhile (\<lambda>c. c \<noteq> CHR ''['') (?base @ ''.jpg[Q=100'') = ?base @ ''.jpg''"
    by (subst takeWhile_append2) simp_all
  then have written:
    "vips_image_write_to_file toy_vips fs_cmyk
       \<lparr>Type = 22, icc_profile_data = None, pels = [7, 8, 9, 10]\<rparr>
       (output_filename toy_vips quality_100 (?argv ! 2)) =
     (0, fs_cmyk(?base @ ''.jpg'' := Some [22, 7, 8, 9, 10]))"
    unfolding name by (simp add: toy_vips_def toy_write_def Let_def)
  have "main toy_vips quality_100 ?argv fs_cmyk =
    (Return (CMYK2SRGBJPEG_CMYK_WITH_USABLE_ICC quality_100),
     \<lparr>files = fs_cmyk(?base @ ''.jpg'' := Some [22, 7, 8, 9, 10]), live = {},
      calls =
        [Ev_vips_image_new, Ev_vips_image_new_mode (?argv ! 1) ''rs'' True,
         Ev_vips_icc_transform (CMYK2SRGBJPEG_SRGB_ICM quality_100)
           (CMYK2SRGBJPEG_BACKSTOP_CMYK_ICC quality_100)
           (CMYK2SRGBJPEG_CONVERSION_INTENT quality_100) True True,
         Ev_vips_image_write_to_file (output_filename toy_vips quality_100 (?argv ! 2)) 0,
         Ev_g_object_unref]\<rparr>)"
  proof (rule success_run [OF _ _ _ _ _ short _ written])
    show "vips_init toy_vips (case ?argv of [] \<Rightarrow> None | a # _ \<Rightarrow> Some a) = 0"
      by (simp add: toy_vips_def)
    show "g_option_context_parse toy_vips ?argv = Some ?argv"
      by (simp add: toy_vips_def)
    show "length ?argv = 3" by simp
    show "vips_image_new_mode toy_vips fs_cmyk (?argv ! 1) ''rs'' =
        Some \<lparr>Type = 15, icc_profile_data = None, pels = [7, 8, 9, 10]\<rparr>"
      by (simp add: toy_vips_def toy_decode_def fs_cmyk_def profiles_def)
    show "vips_image_get_interpretation toy_vips
        \<lparr>Type = 15, icc_profile_data = None, pels = [7, 8, 9, 10]\<rparr> = VIPS_INTERPRETATION_CMYK"
      by (simp add: toy_vips_def VIPS_INTERPRETATION_CMYK_def)
    show "vips_icc_transform toy_vips fs_cmyk
        \<lparr>Type = 15, icc_profile_data = None, pels = [7, 8, 9, 10]\<rparr>
        (CMYK2SRGBJPEG_SRGB_ICM quality_100) (CMYK2SRGBJPEG_BACKSTOP_CMYK_ICC quality_100)
        (CMYK2SRGBJPEG_CONVERSION_INTENT quality_100) True =
        Some \<lparr>Type = 22, icc_profile_data = None, pels = [7, 8, 9, 10]\<rparr>"
      by (simp add: toy_vips_def toy_transform_def fs_cmyk_def profiles_def quality_100_def
          delivered_def)
  qed
  then have "calls (snd (main toy_vips quality_100 ?argv fs_cmyk)) ! 3 =
      Ev_vips_image_write_to_file (output_filename toy_vips quality_100 (?argv ! 2)) 0"
    by simp
  then show ?thesis unfolding name using truncated_name by simp
qed

subsection \<open>Two runs\<close>

text \<open>
  The second run, on the file system \<open>fs'\<close> that a successful conversion left. When
  on \<open>fs'\<close> the input still opens as the same image, the transform still yields the
  same image, and writing that image under the same name gives status 0 and \<open>fs'\<close>
  again, the second run is the first once more: the same status
  \<open>CMYK2SRGBJPEG_CMYK_WITH_USABLE_ICC\<close>, the same calls, the same files.
\<close>

lemma second_run_repeats:
  assumes "reaches_write lib cfg argv fs args t0 t1"
    and "vips_image_write_to_file lib fs t1 (output_filename lib cfg (args ! 2)) = (0, fs')"
    and "vips_image_new_mode lib fs' (args ! 1) ''rs'' = Some t0"
    and "vips_icc_transform lib fs' t0 (CMYK2SRGBJPEG_SRGB_ICM cfg)
          (CMYK2SRGBJPEG_BACKSTOP_CMYK_ICC cfg) (CMYK2SRGBJPEG_CONVERSION_INTENT cfg) True = Some t1"
    and "vips_image_write_to_file lib fs' t1 (output_filename lib cfg (args ! 2)) = (0, fs')"
  shows "main lib cfg argv fs' = main lib cfg argv fs"
    and "fst (main lib cfg argv fs) = Return (CMYK2SRGBJPEG_CMYK_WITH_USABLE_ICC cfg)"
    and "files (snd (main lib cfg argv fs)) = fs'"
proof -
  have start: "vips_init lib (case argv of [] \<Rightarrow> None | a # _ \<Rightarrow> Some a) = 0"
    and parse: "g_option_context_parse lib argv = Some args"
    and three: "length args = 3"
    and cmyk: "vips_image_get_interpretation lib t0 = VIPS_INTERPRETATION_CMYK"
    and short: "\<not> name_too_long lib cfg (args ! 2)"
    and opened: "vips_image_new_mode lib fs (args ! 1) ''rs'' = Some t0"
    and transformed: "vips_icc_transform lib fs t0 (CMYK2SRGBJPEG_SRGB_ICM cfg)
          (CMYK2SRGBJPEG_BACKSTOP_CMYK_ICC cfg) (CMYK2SRGBJPEG_CONVERSION_INTENT cfg) True = Some t1"
    using assms(1) by (simp_all add: reaches_write_def)
  note first = success_run [OF start parse three opened cmyk short transformed assms(2)]
  note second = success_run [OF start parse three assms(3) cmyk short assms(4) assms(5)]
  show "main lib cfg argv fs' = main lib cfg argv fs"
    by (simp only: first second)
  show "fst (main lib cfg argv fs) = Return (CMYK2SRGBJPEG_CMYK_WITH_USABLE_ICC cfg)"
    by (simp add: first)
  show "files (snd (main lib cfg argv fs)) = fs'"
    by (simp add: first)
qed

text \<open>So it is on the small library when the output is \<open>out.jpg\<close>.\<close>

lemma toy_second_run:
  "main toy_vips delivered [''prog'', ''in.tif'', ''out'']
     (files (snd (main toy_vips delivered [''prog'', ''in.tif'', ''out''] fs_cmyk))) =
   main toy_vips delivered [''prog'', ''in.tif'', ''out''] fs_cmyk"
proof -
  let ?argv = "[''prog'', ''in.tif'', ''out'']"
  let ?t0 = "\<lparr>Type = 15, icc_profile_data = None, pels = [7, 8, 9, 10]\<rparr>"
  let ?t1 = "\<lparr>Type = 22, icc_profile_data = None, pels = [7, 8, 9, 10]\<rparr>"
  let ?fs' = "fs_cmyk(''out.jpg'' := Some [22, 7, 8, 9, 10])"
  have short: "\<not> name_too_long toy_vips delivered ''out''"
    by (simp add: name_too_long_def strlen_def toy_vips_def delivered_def)
  have reach: "reaches_write toy_vips delivered ?argv fs_cmyk ?argv ?t0 ?t1"
    by (simp add: toy_reaches_write short)
  have name: "output_filename toy_vips delivered (?argv ! 2) = ''out.jpg[Q=99]''"
    by (simp add: output_filename_def formatted_name_def vips_snprintf_def fmt_d_99
        toy_vips_def delivered_def)
  have wrote: "vips_image_write_to_file toy_vips fs_cmyk ?t1
      (output_filename toy_vips delivered (?argv ! 2)) = (0, ?fs')"
    and again: "vips_image_write_to_file toy_vips ?fs' ?t1
      (output_filename toy_vips delivered (?argv ! 2)) = (0, ?fs')"
    unfolding name by (simp_all add: toy_vips_def toy_write_def Let_def)
  have opened: "vips_image_new_mode toy_vips ?fs' (?argv ! 1) ''rs'' = Some ?t0"
    by (simp add: toy_vips_def toy_decode_def fs_cmyk_def profiles_def)
  have transformed: "vips_icc_transform toy_vips ?fs' ?t0 (CMYK2SRGBJPEG_SRGB_ICM delivered)
      (CMYK2SRGBJPEG_BACKSTOP_CMYK_ICC delivered)
      (CMYK2SRGBJPEG_CONVERSION_INTENT delivered) True = Some ?t1"
    by (simp add: toy_vips_def toy_transform_def fs_cmyk_def profiles_def delivered_def)
  from second_run_repeats(1) [OF reach wrote opened transformed again]
  show ?thesis by (simp add: run_cmyk)
qed



end
